theory Spec2Isabelle
  imports Main
begin

section \<open>Python values used by \<^verbatim>\<open>lib_sysconfig.py\<close>\<close>

text \<open>
  A Python \<^verbatim>\<open>dict\<close> keeps its keys in insertion order; assigning to a key that is
  already there replaces the value and leaves the key at its place.
\<close>

type_synonym ('k, 'v) dict = "('k \<times> 'v) list"

fun dict_set :: "('k, 'v) dict \<Rightarrow> 'k \<Rightarrow> 'v \<Rightarrow> ('k, 'v) dict" where
  "dict_set [] k v = [(k, v)]"
| "dict_set ((k', v') # d) k v =
     (if k' = k then (k, v) # d else (k', v') # dict_set d k v)"

text \<open>
  A template context holds strings, booleans and the dictionary of free-form flags.
\<close>

datatype ctxval =
    CStr string
  | CBool bool
  | CFlags "(string, string) dict"

type_synonym template_context = "(string, ctxval) dict"

text \<open>
  The calls the module makes on its collaborators, in the order it makes them:
  \<^item> \<open>Render source target context\<close>: charmhelpers' \<^verbatim>\<open>render\<close> (the templates
    directory is always \<^verbatim>\<open>'templates'\<close>);
  \<^item> \<open>CheckCall argv\<close>: \<^verbatim>\<open>subprocess.check_call(argv)\<close>;
  \<^item> \<open>AptUpdate\<close>, \<open>AptInstall pkgs\<close>: charmhelpers' \<^verbatim>\<open>apt_update()\<close> and
    \<^verbatim>\<open>apt_install(pkgs)\<close>;
  \<^item> \<open>ServiceRestart name\<close>: \<^verbatim>\<open>host.service_restart(name)\<close>;
  \<^item> \<open>Remove path\<close>: \<^verbatim>\<open>os.remove(path)\<close>;
  \<^item> \<open>Log template args level\<close>: \<^verbatim>\<open>hookenv.log(template.format(*args), level)\<close>,
    kept as the template and its arguments.
\<close>

datatype pyarg =
    AStr string
  | AList "string list"

datatype action =
    Render string string template_context
  | CheckCall "string list"
  | AptUpdate
  | AptInstall "string list"
  | ServiceRestart string
  | Remove string
  | Log string "pyarg list" "string option"

text \<open>
  The exceptions the module can let escape. The module has no \<^verbatim>\<open>raise\<close> of its own:
  every exception comes from a builtin or from a collaborator it calls. \<open>Failed a\<close> is
  the exception of the collaborator call \<open>a\<close>.
\<close>

datatype error =
    IndexError
  | ValueError
  | OverflowError
  | OSError
  | Failed action

text \<open>\<^verbatim>\<open>xs[i]\<close> for a non-negative literal index: out of range raises IndexError.\<close>

definition index :: "'a list \<Rightarrow> nat \<Rightarrow> error + 'a" where
  "index xs i = (if i < length xs then Inr (xs ! i) else Inl IndexError)"

text \<open>
  \<^verbatim>\<open>s.split(sep)\<close> with a one-character separator: every occurrence of the separator
  ends a piece, so the result has one piece more than there are separators and the
  empty string gives one empty piece.
\<close>

fun split_on :: "char \<Rightarrow> string \<Rightarrow> string list" where
  "split_on c [] = [[]]"
| "split_on c (x # xs) =
     (if x = c then [] # split_on c xs
      else (case split_on c xs of
              p # ps \<Rightarrow> (x # p) # ps
            | [] \<Rightarrow> [[x]]))"

text \<open>\<^verbatim>\<open>s.split(sep, maxsplit)\<close>: at most \<open>maxsplit\<close> separators are used.\<close>

fun split_max :: "nat \<Rightarrow> char \<Rightarrow> string \<Rightarrow> string list" where
  "split_max 0 c s = [s]"
| "split_max (Suc n) c [] = [[]]"
| "split_max (Suc n) c (x # xs) =
     (if x = c then [] # split_max n c xs
      else (case split_max (Suc n) c xs of
              p # ps \<Rightarrow> (x # p) # ps
            | [] \<Rightarrow> [[x]]))"

text \<open>\<^verbatim>\<open>s.replace(" ", "")\<close>.\<close>

definition remove_spaces :: "string \<Rightarrow> string" where
  "remove_spaces s = filter (\<lambda>c. c \<noteq> CHR '' '') s"

section \<open>\<^verbatim>\<open>parse_config_flags\<close>\<close>

text \<open>
  \<^verbatim>\<open>
  def parse_config_flags(config_flags):
      config_flags = config_flags.replace(" ", "")
      key_value_pairs = config_flags.split(",")
      parsed_config_flags = {}
      for pair in key_value_pairs:
          if '=' in pair and len(pair.split('=', 1)) == 2:
              parsed_config_flags[pair.split("=")[0]] = pair.split("=")[1]
      return parsed_config_flags
  \<close>
  The loop is \<open>parse_pairs\<close>, with the dictionary built so far as its accumulator.
\<close>

fun parse_pairs ::
  "string list \<Rightarrow> (string, string) dict \<Rightarrow> error + (string, string) dict" where
  "parse_pairs [] parsed_config_flags = Inr parsed_config_flags"
| "parse_pairs (pair # rest) parsed_config_flags =
     (if CHR ''='' \<in> set pair \<and> length (split_max 1 CHR ''='' pair) = 2 then
        (case index (split_on CHR ''='' pair) 1 of
           Inl e \<Rightarrow> Inl e
         | Inr v \<Rightarrow>
            (case index (split_on CHR ''='' pair) 0 of
               Inl e \<Rightarrow> Inl e
             | Inr k \<Rightarrow> parse_pairs rest (dict_set parsed_config_flags k v)))
      else parse_pairs rest parsed_config_flags)"

definition parse_config_flags :: "string \<Rightarrow> error + (string, string) dict" where
  "parse_config_flags config_flags =
     (let config_flags = remove_spaces config_flags;
          key_value_pairs = split_on CHR '','' config_flags
      in parse_pairs key_value_pairs [])"

text \<open>
  What the parser is said to do, in the words of the description: drop every space, cut
  at the commas, keep the fragments that hold an \<open>=\<close>, and for each of them bind the text
  before the first \<open>=\<close> to the text between the first \<open>=\<close> and the second one (or the end
  of the fragment).
\<close>

definition fragment_key :: "string \<Rightarrow> string" where
  "fragment_key frag = takeWhile (\<lambda>c. c \<noteq> CHR ''='') frag"

definition fragment_value :: "string \<Rightarrow> string" where
  "fragment_value frag =
     takeWhile (\<lambda>c. c \<noteq> CHR ''='') (tl (dropWhile (\<lambda>c. c \<noteq> CHR ''='') frag))"

definition parse_config_flags_spec :: "string \<Rightarrow> (string, string) dict" where
  "parse_config_flags_spec s =
     foldl (\<lambda>d frag. dict_set d (fragment_key frag) (fragment_value frag)) []
       (filter (\<lambda>frag. CHR ''='' \<in> set frag)
          (split_on CHR '','' (filter (\<lambda>c. c \<noteq> CHR '' '') s)))"

section \<open>Time, the host and the tracker store\<close>

text \<open>
  An aware \<^verbatim>\<open>datetime\<close> in UTC is its number of microseconds since \<^verbatim>\<open>datetime.min\<close>
  (0001-01-01T00:00:00); \<^verbatim>\<open>datetime.max\<close> is 9999-12-31T23:59:59.999999. Comparing two
  aware datetimes of the same zone compares these numbers.
\<close>

type_synonym datetime = nat

definition datetime_min :: datetime where
  "datetime_min = 0"

definition datetime_max :: datetime where
  "datetime_max = 315537897599999999"

text \<open>
  The tracker stores \<^verbatim>\<open>timestamp.timestamp()\<close>, a float, and reads it back with
  \<^verbatim>\<open>datetime.fromtimestamp(tfloat, timezone.utc)\<close>. Both conversions belong to Python's
  library; they are parameters of the model, with \<open>'f\<close> the type of the stored floats.
  \<open>fromtimestamp\<close> raises on a float that is no instant between \<^verbatim>\<open>datetime.min\<close> and
  \<^verbatim>\<open>datetime.max\<close>.
\<close>

record 'f pylib =
  timestamp :: "datetime \<Rightarrow> 'f"
  fromtimestamp :: "'f \<Rightarrow> error + datetime"

text \<open>
  What one call reads from the host:
  \<^item> \<open>clock_now\<close>: \<^verbatim>\<open>datetime.now(timezone.utc)\<close>;
  \<^item> \<open>proc_uptime\<close>: \<^verbatim>\<open>timedelta(seconds=float(f.readline().split()[0]))\<close> over
    \<^verbatim>\<open>/proc/uptime\<close>, in microseconds, or the exception of opening, reading or parsing;
  \<^item> \<open>uname_release\<close>: \<^verbatim>\<open>os.uname().release\<close>;
  \<^item> \<open>is_container\<close>, \<open>distrib_codename\<close>: charmhelpers' \<^verbatim>\<open>host.is_container()\<close> and
    \<^verbatim>\<open>host.get_distrib_codename()\<close>;
  \<^item> \<open>fails\<close>: the collaborator calls that raise.
\<close>

record host =
  clock_now :: datetime
  proc_uptime :: "error + int"
  uname_release :: string
  is_container :: bool
  distrib_codename :: string
  fails :: "action \<Rightarrow> bool"

text \<open>The key-value store behind the tracker (\<^verbatim>\<open>unitdata.kv()\<close>, or the \<^verbatim>\<open>db\<close> given).\<close>

type_synonym 'f kv = "string \<rightharpoonup> 'f"

definition running_kernel :: "host \<Rightarrow> string" where
  "running_kernel h = uname_release h"

text \<open>
  \<^verbatim>\<open>
  def boot_time():
      with open('/proc/uptime', 'r') as f:
          uptime_seconds = float(f.readline().split()[0])
          boot_time = datetime.now(timezone.utc) - timedelta(seconds=uptime_seconds)
          return boot_time
  \<close>
  Subtracting a \<^verbatim>\<open>timedelta\<close> raises OverflowError when the result leaves the range of
  \<^verbatim>\<open>datetime\<close>.
\<close>

definition boot_time :: "host \<Rightarrow> error + datetime" where
  "boot_time h =
     (case proc_uptime h of
        Inl e \<Rightarrow> Inl e
      | Inr uptime \<Rightarrow>
          (let t = int (clock_now h) - uptime
           in if t < int datetime_min \<or> int datetime_max < t then Inl OverflowError
              else Inr (nat t)))"

section \<open>\<^verbatim>\<open>BootResourceState\<close>\<close>

definition key_for :: "string \<Rightarrow> string" where
  "key_for resource_name = ''sysconfig.boot_resource.'' @ resource_name"

text \<open>
  \<^verbatim>\<open>
  def set_resource(self, resource_name):
      timestamp = datetime.now(timezone.utc)
      self.db.set(self.key_for(resource_name), timestamp.timestamp())
  \<close>
\<close>

definition set_resource :: "'f pylib \<Rightarrow> host \<Rightarrow> string \<Rightarrow> 'f kv \<Rightarrow> 'f kv" where
  "set_resource L h resource_name db =
     db(key_for resource_name \<mapsto> timestamp L (clock_now h))"

text \<open>
  \<^verbatim>\<open>
  def get_resource_changed_timestamp(self, resource_name):
      tfloat = self.db.get(self.key_for(resource_name))
      if tfloat is not None:
          return datetime.fromtimestamp(tfloat, timezone.utc)
      return datetime.min.replace(tzinfo=timezone.utc)
  \<close>
\<close>

definition get_resource_changed_timestamp ::
  "'f pylib \<Rightarrow> 'f kv \<Rightarrow> string \<Rightarrow> error + datetime" where
  "get_resource_changed_timestamp L db resource_name =
     (case db (key_for resource_name) of
        Some tfloat \<Rightarrow> fromtimestamp L tfloat
      | None \<Rightarrow> Inr datetime_min)"

text \<open>
  \<^verbatim>\<open>
  def resources_changed_since_boot(self, resource_names):
      boot_ts = boot_time()
      changed = [name for name in resource_names
                 if boot_ts < self.get_resource_changed_timestamp(name)]
      return changed
  \<close>
  \<open>changed_names\<close> is the comprehension: it looks the names up from left to right and
  the first lookup that raises ends it.
\<close>

fun changed_names ::
  "'f pylib \<Rightarrow> 'f kv \<Rightarrow> datetime \<Rightarrow> string list \<Rightarrow> error + string list" where
  "changed_names L db boot_ts [] = Inr []"
| "changed_names L db boot_ts (name # resource_names) =
     (case get_resource_changed_timestamp L db name of
        Inl e \<Rightarrow> Inl e
      | Inr ts \<Rightarrow>
          (case changed_names L db boot_ts resource_names of
             Inl e \<Rightarrow> Inl e
           | Inr changed \<Rightarrow> Inr (if boot_ts < ts then name # changed else changed)))"

definition resources_changed_since_boot ::
  "'f pylib \<Rightarrow> host \<Rightarrow> 'f kv \<Rightarrow> string list \<Rightarrow> error + string list" where
  "resources_changed_since_boot L h db resource_names =
     (case boot_time h of
        Inl e \<Rightarrow> Inl e
      | Inr boot_ts \<Rightarrow> changed_names L db boot_ts resource_names)"

text \<open>
  The tracker after a sequence of \<open>set_resource\<close> calls, each with the host as it was at
  that call, and the instant of the last call for a name.
\<close>

definition record_all :: "'f pylib \<Rightarrow> (string \<times> host) list \<Rightarrow> 'f kv \<Rightarrow> 'f kv" where
  "record_all L calls db = fold (\<lambda>(name, h). set_resource L h name) calls db"

definition last_recorded :: "(string \<times> host) list \<Rightarrow> string \<Rightarrow> datetime option" where
  "last_recorded calls name = map_option clock_now (map_of (rev calls) name)"

section \<open>The collaborators and the state they work on\<close>

text \<open>
  The charm configuration, \<^verbatim>\<open>hookenv.config()\<close>: one field for each option the module
  reads, with the type the charm declares for it.
\<close>

record charm_config =
  cfg_enable_container :: bool
  cfg_reservation :: string
  cfg_cpu_range :: string
  cfg_hugepages :: string
  cfg_hugepagesz :: string
  cfg_raid_autodetection :: string
  cfg_enable_pti :: bool
  cfg_enable_iommu :: bool
  cfg_grub_config_flags :: string
  cfg_systemd_config_flags :: string
  cfg_kernel_version :: string
  cfg_update_grub :: bool
  cfg_governor :: string

text \<open>
  What the procedures change: the tracker store, the paths that exist on the file
  system, and the calls made on the collaborators so far, oldest first.
\<close>

record 'f world =
  db :: "'f kv"
  files :: "string set"
  trace :: "action list"

text \<open>
  A procedure takes the world and returns its result, or the exception that ended it,
  with the world as it is by then: what was done before an exception stays done.
\<close>

type_synonym ('f, 'a) proc = "'f world \<Rightarrow> (error + 'a) \<times> 'f world"

definition return_proc :: "'a \<Rightarrow> ('f, 'a) proc" where
  "return_proc x s = (Inr x, s)"

definition raise_proc :: "error \<Rightarrow> ('f, 'a) proc" where
  "raise_proc e s = (Inl e, s)"

definition bind_proc :: "('f, 'a) proc \<Rightarrow> ('a \<Rightarrow> ('f, 'b) proc) \<Rightarrow> ('f, 'b) proc" where
  "bind_proc m k s =
     (case m s of
        (Inl e, s') \<Rightarrow> (Inl e, s')
      | (Inr x, s') \<Rightarrow> k x s')"

text \<open>A collaborator call is made, and raises if the host says so.\<close>

definition perform :: "host \<Rightarrow> action \<Rightarrow> ('f, unit) proc" where
  "perform h a s =
     (let s' = s\<lparr>trace := trace s @ [a]\<rparr>
      in if fails h a then (Inl (Failed a), s') else (Inr (), s'))"

text \<open>\<^verbatim>\<open>hookenv.log\<close> does not raise.\<close>

definition log :: "string \<Rightarrow> pyarg list \<Rightarrow> string option \<Rightarrow> ('f, unit) proc" where
  "log template args level s = (Inr (), s\<lparr>trace := trace s @ [Log template args level]\<rparr>)"

text \<open>\<^verbatim>\<open>render\<close> writes the target file.\<close>

definition render :: "host \<Rightarrow> string \<Rightarrow> string \<Rightarrow> template_context \<Rightarrow> ('f, unit) proc" where
  "render h source target context =
     bind_proc (perform h (Render source target context))
       (\<lambda>_ s. (Inr (), s\<lparr>files := insert target (files s)\<rparr>))"

text \<open>\<^verbatim>\<open>os.remove\<close> deletes the file.\<close>

definition os_remove :: "host \<Rightarrow> string \<Rightarrow> ('f, unit) proc" where
  "os_remove h path =
     bind_proc (perform h (Remove path))
       (\<lambda>_ s. (Inr (), s\<lparr>files := files s - {path}\<rparr>))"

text \<open>\<^verbatim>\<open>self.boot_resources.set_resource(name)\<close> on the tracker of the world.\<close>

definition boot_resources_set_resource :: "'f pylib \<Rightarrow> host \<Rightarrow> string \<Rightarrow> ('f, unit) proc" where
  "boot_resources_set_resource L h resource_name s =
     (Inr (), s\<lparr>db := set_resource L h resource_name (db s)\<rparr>)"

section \<open>\<^verbatim>\<open>SysConfigHelper\<close>\<close>

definition GRUB_DEFAULT :: "string \<Rightarrow> string" where
  "GRUB_DEFAULT v = ''Advanced options for Ubuntu>Ubuntu, with Linux '' @ v"

definition CPUFREQUTILS_TMPL :: string where
  "CPUFREQUTILS_TMPL = ''cpufrequtils.j2''"

definition GRUB_CONF_TMPL :: string where
  "GRUB_CONF_TMPL = ''grub.j2''"

definition CPUFREQUTILS :: string where
  "CPUFREQUTILS = ''/etc/default/cpufrequtils''"

definition GRUB_CONF :: string where
  "GRUB_CONF = ''/etc/default/grub.d/90-sysconfig.cfg''"

definition KERNEL :: string where
  "KERNEL = ''kernel''"

definition DEBUG :: "string option" where
  "DEBUG = Some ''DEBUG''"

definition grub_config_flags :: "charm_config \<Rightarrow> error + (string, string) dict" where
  "grub_config_flags cfg = parse_config_flags (cfg_grub_config_flags cfg)"

text \<open>
  \<^verbatim>\<open>
  def _render_boot_resource(self, source, target, context):
      render(source=source, templates_dir='templates', target=target, context=context)
      self.boot_resources.set_resource(target)
  \<close>
  The methods whose Python name starts with an underscore have the prefix \<open>priv\<close> here.
\<close>

definition priv_render_boot_resource ::
  "'f pylib \<Rightarrow> host \<Rightarrow> string \<Rightarrow> string \<Rightarrow> template_context \<Rightarrow> ('f, unit) proc" where
  "priv_render_boot_resource L h source target context =
     bind_proc (render h source target context)
       (\<lambda>_. boot_resources_set_resource L h target)"

text \<open>
  \<^verbatim>\<open>
  def _is_kernel_already_running(self):
      configured = self.kernel_version
      if configured == running_kernel():
          hookenv.log("Already running kernel: {}".format(configured),  hookenv.DEBUG)
          return True
      return False
  \<close>
\<close>

definition priv_is_kernel_already_running :: "host \<Rightarrow> charm_config \<Rightarrow> ('f, bool) proc" where
  "priv_is_kernel_already_running h cfg =
     (let configured = cfg_kernel_version cfg
      in if configured = running_kernel h then
           bind_proc (log ''Already running kernel: {}'' [AStr configured] DEBUG)
             (\<lambda>_. return_proc True)
         else return_proc False)"

text \<open>
  \<^verbatim>\<open>
  def _update_grub(self):
      if self.update_grub and not host.is_container():
          subprocess.check_call(['/usr/sbin/update-grub'])
          hookenv.log('Running update-grub to apply grub conf updates',  hookenv.DEBUG)
  \<close>
\<close>

definition priv_update_grub :: "host \<Rightarrow> charm_config \<Rightarrow> ('f, unit) proc" where
  "priv_update_grub h cfg =
     (if cfg_update_grub cfg \<and> \<not> is_container h then
        bind_proc (perform h (CheckCall [''/usr/sbin/update-grub'']))
          (\<lambda>_. log ''Running update-grub to apply grub conf updates'' [] DEBUG)
      else return_proc ())"

text \<open>
  \<^verbatim>\<open>
  def update_grub_file(self):
      context = {}
      if self.reservation == 'isolcpus':
          context['cpu_range'] = self.cpu_range
      if self.hugepages:
          context['hugepages'] = self.hugepages
      if self.hugepagesz:
          context['hugepagesz'] = self.hugepagesz
      if self.raid_autodetection:
          context['raid'] = self.raid_autodetection
      if not self.enable_pti:
          context['pti_off'] = True
      if self.enable_iommu:
          context['iommu'] = True
      context['grub_config_flags'] = self.grub_config_flags
      if self.kernel_version and not self._is_kernel_already_running():
          context['grub_default'] = GRUB_DEFAULT.format(self.kernel_version)
      self._render_boot_resource(GRUB_CONF_TMPL, GRUB_CONF, context)
      hookenv.log('grub configuration updated')
      self._update_grub()
  \<close>
\<close>

definition update_grub_file :: "'f pylib \<Rightarrow> host \<Rightarrow> charm_config \<Rightarrow> ('f, unit) proc" where
  "update_grub_file L h cfg =
     (let context = [];
          context = (if cfg_reservation cfg = ''isolcpus''
                     then dict_set context ''cpu_range'' (CStr (cfg_cpu_range cfg))
                     else context);
          context = (if cfg_hugepages cfg \<noteq> []
                     then dict_set context ''hugepages'' (CStr (cfg_hugepages cfg))
                     else context);
          context = (if cfg_hugepagesz cfg \<noteq> []
                     then dict_set context ''hugepagesz'' (CStr (cfg_hugepagesz cfg))
                     else context);
          context = (if cfg_raid_autodetection cfg \<noteq> []
                     then dict_set context ''raid'' (CStr (cfg_raid_autodetection cfg))
                     else context);
          context = (if \<not> cfg_enable_pti cfg
                     then dict_set context ''pti_off'' (CBool True)
                     else context);
          context = (if cfg_enable_iommu cfg
                     then dict_set context ''iommu'' (CBool True)
                     else context)
      in case grub_config_flags cfg of
           Inl e \<Rightarrow> raise_proc e
         | Inr flags \<Rightarrow>
            (let context = dict_set context ''grub_config_flags'' (CFlags flags)
             in bind_proc
                  (if cfg_kernel_version cfg \<noteq> [] then
                     bind_proc (priv_is_kernel_already_running h cfg)
                       (\<lambda>running. return_proc (\<not> running))
                   else return_proc False)
                  (\<lambda>pin.
                     let context = (if pin
                                    then dict_set context ''grub_default''
                                           (CStr (GRUB_DEFAULT (cfg_kernel_version cfg)))
                                    else context)
                     in bind_proc (priv_render_boot_resource L h GRUB_CONF_TMPL GRUB_CONF context)
                          (\<lambda>_. bind_proc (log ''grub configuration updated'' [] None)
                             (\<lambda>_. priv_update_grub h cfg)))))"

text \<open>
  \<^verbatim>\<open>
  def install_configured_kernel(self):
      if not self.kernel_version or self._is_kernel_already_running():
          hookenv.log('kernel running already to the reuired version',  hookenv.DEBUG)
          return
      configured = self.kernel_version
      pkgs = [tmpl.format(configured)
              for tmpl in ["linux-image-{}", "linux-modules-extra-{}"]]
      apt_update()
      apt_install(pkgs)
      hookenv.log("installing: {}".format(pkgs))
      self.boot_resources.set_resource(KERNEL)
  \<close>
  Both package templates end in their placeholder, so formatting one appends the version.
\<close>

definition install_configured_kernel ::
  "'f pylib \<Rightarrow> host \<Rightarrow> charm_config \<Rightarrow> ('f, unit) proc" where
  "install_configured_kernel L h cfg =
     bind_proc
       (if cfg_kernel_version cfg = [] then return_proc True
        else priv_is_kernel_already_running h cfg)
       (\<lambda>nothing_to_do.
          if nothing_to_do then
            log ''kernel running already to the reuired version'' [] DEBUG
          else
            (let configured = cfg_kernel_version cfg;
                 pkgs = map (\<lambda>tmpl. tmpl @ configured)
                          [''linux-image-'', ''linux-modules-extra-'']
             in bind_proc (perform h AptUpdate)
                  (\<lambda>_. bind_proc (perform h (AptInstall pkgs))
                     (\<lambda>_. bind_proc (log ''installing: {}'' [AList pkgs] None)
                        (\<lambda>_. boot_resources_set_resource L h KERNEL)))))"

text \<open>
  \<^verbatim>\<open>
  def update_cpufreq(self):
      if self.governor not in ('', 'performance', 'powersave'):
          return
      context = {'governor': self.governor}
      self._render_boot_resource(CPUFREQUTILS_TMPL, CPUFREQUTILS, context)
      if host.get_distrib_codename() == 'xenial' and not host.is_container():
          hookenv.log('disabling the ondemand initscript for lp#1822774'
                      ' and lp#740127 if a governor is specified',  hookenv.DEBUG)
          if self.governor:
              subprocess.check_call(
                  ['/usr/sbin/update-rc.d', '-f', 'ondemand', 'remove',
                   '>', '/dev/null', '2>&1'])
          else:
              subprocess.check_call(
                  ['/usr/sbin/update-rc.d', '-f', 'ondemand', 'defaults',
                   '>', '/dev/null', '2>&1'])
      host.service_restart('cpufrequtils')
  \<close>
\<close>

definition ondemand_command :: "string \<Rightarrow> string list" where
  "ondemand_command verb =
     [''/usr/sbin/update-rc.d'', ''-f'', ''ondemand'', verb, ''>'', ''/dev/null'', ''2>&1'']"

definition update_cpufreq :: "'f pylib \<Rightarrow> host \<Rightarrow> charm_config \<Rightarrow> ('f, unit) proc" where
  "update_cpufreq L h cfg =
     (if cfg_governor cfg \<notin> set ['''', ''performance'', ''powersave''] then return_proc ()
      else
        (let context = [(''governor'', CStr (cfg_governor cfg))]
         in bind_proc (priv_render_boot_resource L h CPUFREQUTILS_TMPL CPUFREQUTILS context)
              (\<lambda>_. bind_proc
                 (if distrib_codename h = ''xenial'' \<and> \<not> is_container h then
                    bind_proc
                      (log (''disabling the ondemand initscript for lp#1822774'' @
                            '' and lp#740127 if a governor is specified'') [] DEBUG)
                      (\<lambda>_. if cfg_governor cfg \<noteq> []
                            then perform h (CheckCall (ondemand_command ''remove''))
                            else perform h (CheckCall (ondemand_command ''defaults'')))
                  else return_proc ())
                 (\<lambda>_. perform h (ServiceRestart ''cpufrequtils'')))))"

text \<open>
  \<^verbatim>\<open>
  def remove_grub_configuration(self):
      grub_configuration_path = GRUB_CONF
      if not os.path.exists(grub_configuration_path):
          return
      os.remove(grub_configuration_path)
      hookenv.log(
          'deleted grub configuration at '.format(grub_configuration_path),
          hookenv.DEBUG
      )
      self._update_grub()
      self.boot_resources.set_resource(GRUB_CONF)
  \<close>
\<close>

definition remove_grub_configuration ::
  "'f pylib \<Rightarrow> host \<Rightarrow> charm_config \<Rightarrow> ('f, unit) proc" where
  "remove_grub_configuration L h cfg s =
     (let grub_configuration_path = GRUB_CONF
      in if grub_configuration_path \<notin> files s then return_proc () s
         else
           bind_proc (os_remove h grub_configuration_path)
             (\<lambda>_. bind_proc
                (log ''deleted grub configuration at '' [AStr grub_configuration_path] DEBUG)
                (\<lambda>_. bind_proc (priv_update_grub h cfg)
                   (\<lambda>_. boot_resources_set_resource L h GRUB_CONF))) s)"

text \<open>The contexts that were handed to \<^verbatim>\<open>render\<close>, oldest first.\<close>

fun rendered_contexts :: "action list \<Rightarrow> template_context list" where
  "rendered_contexts [] = []"
| "rendered_contexts (Render source target context # as) = context # rendered_contexts as"
| "rendered_contexts (a # as) = rendered_contexts as"

section \<open>Concrete inputs\<close>

text \<open>
  A datetime library whose floats are exact: the float of an instant is its number of
  microseconds since 1970-01-01T00:00:00 UTC, which is 62135596800 seconds after
  \<^verbatim>\<open>datetime.min\<close>.
\<close>

definition exact_lib :: "int pylib" where
  "exact_lib =
     \<lparr>timestamp = (\<lambda>t. int t - 62135596800000000),
      fromtimestamp =
        (\<lambda>tfloat. if 0 \<le> tfloat + 62135596800000000
                     \<and> tfloat + 62135596800000000 \<le> int datetime_max
                  then Inr (nat (tfloat + 62135596800000000))
                  else Inl OverflowError)\<rparr>"

text \<open>
  A xenial machine that is no container, one hour after its boot, at
  2026-11-04T13:46:40 UTC, where every collaborator call succeeds.
\<close>

definition host_example :: host where
  "host_example =
     \<lparr>clock_now = 63929396800000000, proc_uptime = Inr 3600000000,
      uname_release = ''5.15.0-50-generic'', is_container = False,
      distrib_codename = ''xenial'', fails = (\<lambda>a. False)\<rparr>"

definition kv_empty :: "int kv" where
  "kv_empty = Map.empty"

definition config_example :: charm_config where
  "config_example =
     \<lparr>cfg_enable_container = False, cfg_reservation = ''off'', cfg_cpu_range = '''',
      cfg_hugepages = '''', cfg_hugepagesz = '''', cfg_raid_autodetection = '''',
      cfg_enable_pti = True, cfg_enable_iommu = False, cfg_grub_config_flags = '''',
      cfg_systemd_config_flags = '''', cfg_kernel_version = ''5.15.0-99-generic'',
      cfg_update_grub = True, cfg_governor = ''performance''\<rparr>"

definition world_empty :: "int world" where
  "world_empty = \<lparr>db = kv_empty, files = {}, trace = []\<rparr>"

definition world_with_grub :: "int world" where
  "world_with_grub = \<lparr>db = kv_empty, files = {GRUB_CONF}, trace = []\<rparr>"

section \<open>Properties of the string helpers\<close>

lemma split_on_not_Nil: "split_on c s \<noteq> []"
  by (induction s) (auto split: list.splits)

lemma split_on_hd: "hd (split_on c s) = takeWhile (\<lambda>x. x \<noteq> c) s"
  by (induction s) (auto split: list.splits simp: split_on_not_Nil)

lemma split_on_tl:
  "c \<in> set s \<Longrightarrow> tl (split_on c s) = split_on c (tl (dropWhile (\<lambda>x. x \<noteq> c) s))"
  by (induction s) (auto split: list.splits simp: split_on_not_Nil)

lemma split_on_length: "length (split_on c s) = Suc (length (filter (\<lambda>x. x = c) s))"
  by (induction s) (auto split: list.splits simp: split_on_not_Nil)

lemma split_on_no_sep: "p \<in> set (split_on c s) \<Longrightarrow> c \<notin> set p"
  by (induction s arbitrary: p) (auto split: list.splits if_splits)

lemma split_max_one_length: "c \<in> set s \<Longrightarrow> length (split_max (Suc 0) c s) = 2"
  by (induction s) (auto split: list.splits)

lemma split_on_index0: "index (split_on c s) 0 = Inr (takeWhile (\<lambda>x. x \<noteq> c) s)"
  using split_on_hd [of c s] split_on_not_Nil [of c s]
  by (cases "split_on c s") (auto simp: index_def)

lemma split_on_index1:
  assumes "c \<in> set s"
  shows "index (split_on c s) 1 =
           Inr (takeWhile (\<lambda>x. x \<noteq> c) (tl (dropWhile (\<lambda>x. x \<noteq> c) s)))"
proof -
  let ?r = "tl (dropWhile (\<lambda>x. x \<noteq> c) s)"
  obtain p ps where sp: "split_on c s = p # ps"
    using split_on_not_Nil [of c s] by (cases "split_on c s") auto
  have ps: "ps = split_on c ?r"
    using split_on_tl [OF assms] sp by simp
  obtain q qs where sq: "split_on c ?r = q # qs"
    using split_on_not_Nil [of c ?r] by (cases "split_on c ?r") auto
  have "q = takeWhile (\<lambda>x. x \<noteq> c) ?r"
    using split_on_hd [of c ?r] sq by simp
  then show ?thesis
    using sp ps sq by (simp add: index_def)
qed

lemma map_of_dict_set: "map_of (dict_set d k v) = (map_of d)(k \<mapsto> v)"
  by (induction d k v rule: dict_set.induct) auto

lemma map_of_if_dict_set:
  "map_of (if b then dict_set c k v else c) k' =
     (if b \<and> k = k' then Some v else map_of c k')"
  by (simp add: map_of_dict_set)

section \<open>The flag parser\<close>

text \<open>
  The loop never raises: a pair that holds an \<open>=\<close> splits into at least two pieces, so
  both index reads are in range; and the guard on \<^verbatim>\<open>pair.split('=', 1)\<close> is implied by
  the membership test before it.
\<close>

lemma parse_pairs_foldl:
  "parse_pairs ps d =
     Inr (foldl (\<lambda>d frag. dict_set d (fragment_key frag) (fragment_value frag)) d
            (filter (\<lambda>frag. CHR ''='' \<in> set frag) ps))"
proof (induction ps arbitrary: d)
  case Nil
  show ?case by simp
next
  case (Cons pair rest)
  show ?case
  proof (cases "CHR ''='' \<in> set pair")
    case True
    then show ?thesis
      using Cons.IH split_max_one_length [OF True] split_on_index1 [OF True]
        split_on_index0 [of "CHR ''=''" pair]
      by (simp add: fragment_key_def fragment_value_def)
  next
    case False
    then show ?thesis using Cons.IH by simp
  qed
qed

lemma parse_config_flags_total: "\<exists>flags. parse_config_flags s = Inr flags"
  by (simp add: parse_config_flags_def parse_pairs_foldl Let_def)

text \<open>
  C10: for every input string, \<open>parse_config_flags\<close> removes every space, splits at the
  commas, keeps the fragments that contain an \<open>=\<close> and discards the others without an
  error, and binds the text before the first \<open>=\<close> of a kept fragment to the text between
  its first and its second \<open>=\<close>; what follows a second \<open>=\<close> is dropped.
\<close>

theorem parse_config_flags_refines:
  "parse_config_flags s = Inr (parse_config_flags_spec s)"
  by (simp add: parse_config_flags_def parse_config_flags_spec_def remove_spaces_def
      parse_pairs_foldl Let_def)

theorem parse_config_flags_refines_witness:
  "parse_config_flags ''a = 1, b=2=3 ,c,=x,d=, a=9'' =
     Inr [(''a'', ''9''), (''b'', ''2''), ('''', ''x''), (''d'', '''')]"
  using parse_config_flags_refines [of "''a = 1, b=2=3 ,c,=x,d=, a=9''"]
  by (simp add: parse_config_flags_spec_def fragment_key_def fragment_value_def)

section \<open>The tracker\<close>

lemma key_for_inj: "key_for a = key_for b \<longleftrightarrow> a = b"
  by (simp add: key_for_def)

lemma changed_names_filter:
  assumes "\<forall>n\<in>set names. \<exists>t. get_resource_changed_timestamp L store n = Inr t"
  shows "changed_names L store b names =
           Inr (filter (\<lambda>n. \<exists>t. get_resource_changed_timestamp L store n = Inr t \<and> b < t) names)"
  using assms by (induction names) auto

text \<open>An exception of \<open>boot_time\<close> or of a lookup ends the query.\<close>

lemma boot_time_failure:
  "boot_time h = Inl e \<Longrightarrow> resources_changed_since_boot L h store names = Inl e"
  by (simp add: resources_changed_since_boot_def)

lemma lookup_failure:
  "n \<in> set names \<Longrightarrow> get_resource_changed_timestamp L store n = Inl e \<Longrightarrow>
     \<exists>e'. changed_names L store b names = Inl e'"
  by (induction names) (auto split: sum.splits)

lemma get_after_set_same:
  "get_resource_changed_timestamp L (set_resource L h n store) n =
     fromtimestamp L (timestamp L (clock_now h))"
  by (simp add: get_resource_changed_timestamp_def set_resource_def)

lemma get_after_set_other:
  "m \<noteq> n \<Longrightarrow>
     get_resource_changed_timestamp L (set_resource L h n store) m =
     get_resource_changed_timestamp L store m"
  by (simp add: get_resource_changed_timestamp_def set_resource_def key_for_inj)

lemma record_all_snoc:
  "record_all L (calls @ [(n, h)]) store = set_resource L h n (record_all L calls store)"
  by (simp add: record_all_def)

lemma last_recorded_snoc:
  "last_recorded (calls @ [(n, h)]) m =
     (if m = n then Some (clock_now h) else last_recorded calls m)"
  by (simp add: last_recorded_def)

lemma host_example_simps:
  "clock_now host_example = 63929396800000000"
  "proc_uptime host_example = Inr 3600000000"
  "uname_release host_example = ''5.15.0-50-generic''"
  "is_container host_example = False"
  "distrib_codename host_example = ''xenial''"
  "fails host_example a = False"
  by (simp_all add: host_example_def)

lemma boot_time_host_example: "boot_time host_example = Inr 63929393200000000"
  by (simp add: boot_time_def host_example_simps datetime_min_def datetime_max_def)

lemma exact_lib_roundtrip_host_example:
  "fromtimestamp exact_lib (timestamp exact_lib (clock_now host_example)) =
     Inr (clock_now host_example)"
  by (simp add: exact_lib_def host_example_simps datetime_max_def)

lemmas tracker_example_defs =
  resources_changed_since_boot_def get_resource_changed_timestamp_def set_resource_def
  boot_time_host_example key_for_def kv_empty_def exact_lib_def host_example_simps
  datetime_min_def datetime_max_def

text \<open>
  C1: for every list of resource names and every tracker store,
  \<open>resources_changed_since_boot\<close> returns exactly the input names whose recorded
  last-changed timestamp is strictly greater than the freshly computed boot time, in
  the order of the input. The boot time is the one \<open>boot_time\<close> computes at this call,
  and every float the store holds for one of the names is a timestamp.
\<close>

theorem resources_changed_since_boot_filter:
  assumes "boot_time h = Inr boot_ts"
    and "\<forall>n\<in>set names. \<forall>tfloat. store (key_for n) = Some tfloat \<longrightarrow>
           (\<exists>t. fromtimestamp L tfloat = Inr t)"
  shows "resources_changed_since_boot L h store names =
           Inr (filter
                  (\<lambda>n. \<exists>t. get_resource_changed_timestamp L store n = Inr t \<and> boot_ts < t)
                  names)"
proof -
  have "\<forall>n\<in>set names. \<exists>t. get_resource_changed_timestamp L store n = Inr t"
    using assms(2) by (auto simp: get_resource_changed_timestamp_def split: option.splits)
  then show ?thesis
    using assms(1) by (simp add: resources_changed_since_boot_def changed_names_filter)
qed

theorem resources_changed_since_boot_filter_witness:
  "resources_changed_since_boot exact_lib host_example
     (set_resource exact_lib host_example ''grub'' kv_empty) [''kernel'', ''grub'', ''grub''] =
   Inr [''grub'', ''grub'']"
  using resources_changed_since_boot_filter
    [of host_example 63929393200000000 "[''kernel'', ''grub'', ''grub'']"
        "set_resource exact_lib host_example ''grub'' kv_empty" exact_lib]
  by (simp add: tracker_example_defs)

text \<open>
  C2: for every resource name, \<open>get_resource_changed_timestamp\<close> returns the stored
  \<open>changed_at\<close> when a record exists for the name and \<^verbatim>\<open>datetime.min\<close> when the name was
  never recorded, and it does not fail: after any sequence of \<open>set_resource\<close> calls on an
  empty tracker it returns the instant of the last call for the name, or
  \<^verbatim>\<open>datetime.min\<close> if there was none; in any store, a name without a record gives
  \<^verbatim>\<open>datetime.min\<close> and a record gives the timestamp its float stands for. The floats
  written by \<open>set_resource\<close> read back as the instants they were made from.
\<close>

theorem get_resource_changed_timestamp_recorded:
  assumes "\<forall>(n, h)\<in>set calls.
             fromtimestamp L (timestamp L (clock_now h)) = Inr (clock_now h)"
  shows "get_resource_changed_timestamp L (record_all L calls Map.empty) name =
           Inr (case last_recorded calls name of
                  None \<Rightarrow> datetime_min
                | Some changed_at \<Rightarrow> changed_at)
       \<and> (store (key_for name) = None \<longrightarrow>
            get_resource_changed_timestamp L store name = Inr datetime_min)
       \<and> (\<forall>tfloat changed_at.
            store (key_for name) = Some tfloat \<and> fromtimestamp L tfloat = Inr changed_at \<longrightarrow>
            get_resource_changed_timestamp L store name = Inr changed_at)"
proof -
  have "get_resource_changed_timestamp L (record_all L calls Map.empty) name =
           Inr (case last_recorded calls name of
                  None \<Rightarrow> datetime_min
                | Some changed_at \<Rightarrow> changed_at)"
    using assms
  proof (induction calls rule: rev_induct)
    case Nil
    show ?case
      by (simp add: record_all_def last_recorded_def get_resource_changed_timestamp_def)
  next
    case (snoc c calls)
    obtain n h where c: "c = (n, h)" by (cases c)
    have ih: "get_resource_changed_timestamp L (record_all L calls Map.empty) name =
                Inr (case last_recorded calls name of
                       None \<Rightarrow> datetime_min
                     | Some changed_at \<Rightarrow> changed_at)"
      using snoc by simp
    have rt: "fromtimestamp L (timestamp L (clock_now h)) = Inr (clock_now h)"
      using snoc.prems c by simp
    show ?case
    proof (cases "name = n")
      case True
      then show ?thesis
        using rt by (simp add: c record_all_snoc last_recorded_snoc get_after_set_same)
    next
      case False
      then show ?thesis
        using ih by (simp add: c record_all_snoc last_recorded_snoc get_after_set_other)
    qed
  qed
  then show ?thesis
    by (simp add: get_resource_changed_timestamp_def)
qed

theorem get_resource_changed_timestamp_recorded_witness:
  "get_resource_changed_timestamp exact_lib
     (record_all exact_lib
        [(''grub'', host_example\<lparr>clock_now := 63929390000000000\<rparr>), (''kernel'', host_example),
         (''grub'', host_example)] Map.empty) ''grub'' = Inr 63929396800000000
 \<and> get_resource_changed_timestamp exact_lib
     (record_all exact_lib
        [(''grub'', host_example\<lparr>clock_now := 63929390000000000\<rparr>), (''kernel'', host_example),
         (''grub'', host_example)] Map.empty) ''systemd'' = Inr datetime_min"
  using get_resource_changed_timestamp_recorded
    [where calls = "[(''grub'', host_example\<lparr>clock_now := 63929390000000000\<rparr>),
          (''kernel'', host_example), (''grub'', host_example)]"
       and L = exact_lib and name = "''grub''"]
    get_resource_changed_timestamp_recorded
    [where calls = "[(''grub'', host_example\<lparr>clock_now := 63929390000000000\<rparr>),
          (''kernel'', host_example), (''grub'', host_example)]"
       and L = exact_lib and name = "''systemd''"]
  by (simp add: last_recorded_def exact_lib_def host_example_simps datetime_max_def)

text \<open>
  C3, as the code has it: a domain that was never recorded has the last-changed
  timestamp \<^verbatim>\<open>datetime.min\<close>, which no boot time precedes, so
  \<open>resources_changed_since_boot\<close> never includes it; asked about that domain alone, it
  returns the empty list whenever the boot time can be computed.
\<close>

theorem never_recorded_not_changed:
  assumes "store (key_for d) = None"
  shows "(\<forall>changed. resources_changed_since_boot L h store names = Inr changed \<longrightarrow>
            d \<notin> set changed)
       \<and> (\<forall>boot_ts. boot_time h = Inr boot_ts \<longrightarrow>
            resources_changed_since_boot L h store [d] = Inr [])"
proof -
  have g: "get_resource_changed_timestamp L store d = Inr datetime_min"
    using assms by (simp add: get_resource_changed_timestamp_def)
  have "changed_names L store b names = Inr changed \<Longrightarrow> d \<notin> set changed" for b changed
    using g by (induction names arbitrary: changed)
      (auto simp: datetime_min_def split: sum.splits if_splits)
  then show ?thesis
    using g by (auto simp: resources_changed_since_boot_def datetime_min_def split: sum.splits)
qed

theorem never_recorded_not_changed_witness:
  "set_resource exact_lib host_example ''grub'' kv_empty (key_for ''kernel'') = None
 \<and> ''kernel'' \<notin> set [''grub'']
 \<and> resources_changed_since_boot exact_lib host_example
      (set_resource exact_lib host_example ''grub'' kv_empty) [''kernel''] = Inr []"
  using never_recorded_not_changed
    [of "set_resource exact_lib host_example ''grub'' kv_empty" "''kernel''" exact_lib
        host_example "[''kernel'', ''grub'']"]
  by (simp add: tracker_example_defs)

text \<open>
  C3 as stated fails: one hour after boot, with nothing recorded, the domain \<open>grub\<close> is
  not reported.
\<close>

theorem never_recorded_counterexample:
  "kv_empty (key_for ''grub'') = None
 \<and> boot_time host_example = Inr 63929393200000000
 \<and> resources_changed_since_boot exact_lib host_example kv_empty [''grub''] = Inr []"
  by (simp add: tracker_example_defs)

text \<open>
  C4: \<open>set_resource d\<close> followed by \<open>resources_changed_since_boot [d]\<close> returns \<open>[d]\<close>,
  when the clock at the record step is strictly after the boot instant that the query
  computes. The float written at the record step reads back as the instant it was made
  from.
\<close>

theorem record_then_changed:
  assumes "boot_time h2 = Inr boot_ts"
    and "boot_ts < clock_now h1"
    and "fromtimestamp L (timestamp L (clock_now h1)) = Inr (clock_now h1)"
  shows "resources_changed_since_boot L h2 (set_resource L h1 d store) [d] = Inr [d]"
  using assms by (simp add: resources_changed_since_boot_def get_after_set_same)

theorem record_then_changed_witness:
  "boot_time host_example = Inr 63929393200000000
 \<and> 63929393200000000 < clock_now (host_example\<lparr>clock_now := 63929396000000000\<rparr>)
 \<and> resources_changed_since_boot exact_lib host_example
      (set_resource exact_lib (host_example\<lparr>clock_now := 63929396000000000\<rparr>) ''grub'' kv_empty)
      [''grub''] = Inr [''grub'']"
  using record_then_changed
    [of host_example 63929393200000000 "host_example\<lparr>clock_now := 63929396000000000\<rparr>"
        exact_lib "''grub''" kv_empty]
  by (simp add: boot_time_host_example exact_lib_def datetime_max_def)

section \<open>The procedures\<close>

lemma rendered_contexts_append:
  "rendered_contexts (xs @ ys) = rendered_contexts xs @ rendered_contexts ys"
  by (induction xs rule: rendered_contexts.induct) auto

lemmas proc_defs =
  return_proc_def raise_proc_def bind_proc_def perform_def log_def render_def os_remove_def
  boot_resources_set_resource_def priv_render_boot_resource_def
  priv_is_kernel_already_running_def priv_update_grub_def

lemmas config_example_simps =
  config_example_def [THEN arg_cong [where f = cfg_kernel_version], simplified]
  config_example_def [THEN arg_cong [where f = cfg_governor], simplified]
  config_example_def [THEN arg_cong [where f = cfg_update_grub], simplified]

text \<open>
  What \<open>update_grub_file\<close> does once the flags are in the context: the pin is decided,
  the file is rendered and recorded, and the boot loader is regenerated.
\<close>

lemma grub_tail:
  assumes "map_of c ''grub_default'' = None"
  shows "map (\<lambda>c. map_of c ''grub_default'')
     (rendered_contexts (trace (snd (
        bind_proc
          (if cfg_kernel_version cfg \<noteq> [] then
             bind_proc (priv_is_kernel_already_running h cfg)
               (\<lambda>running. return_proc (\<not> running))
           else return_proc False)
          (\<lambda>pin.
             bind_proc (priv_render_boot_resource L h GRUB_CONF_TMPL GRUB_CONF
                         (if pin
                          then dict_set c ''grub_default''
                                 (CStr (GRUB_DEFAULT (cfg_kernel_version cfg)))
                          else c))
               (\<lambda>_. bind_proc (log ''grub configuration updated'' [] None)
                  (\<lambda>_. priv_update_grub h cfg))) s)))) =
   map (\<lambda>c. map_of c ''grub_default'') (rendered_contexts (trace s)) @
     [if cfg_kernel_version cfg \<noteq> [] \<and> cfg_kernel_version cfg \<noteq> running_kernel h
      then Some (CStr (GRUB_DEFAULT (cfg_kernel_version cfg))) else None]"
  using assms
  by (simp add: proc_defs Let_def rendered_contexts_append map_of_dict_set)

text \<open>
  C5: for every configuration, the context that \<open>update_grub_file\<close> hands to the
  renderer has the entry \<open>grub_default\<close>, naming the configured kernel version, if and
  only if a kernel version is configured and it is not the release of the running
  kernel; otherwise the context has no such entry.
\<close>

theorem grub_default_pin:
  "map (\<lambda>c. map_of c ''grub_default'')
     (rendered_contexts (trace (snd (update_grub_file L h cfg s)))) =
   map (\<lambda>c. map_of c ''grub_default'') (rendered_contexts (trace s)) @
     [if cfg_kernel_version cfg \<noteq> [] \<and> cfg_kernel_version cfg \<noteq> running_kernel h
      then Some (CStr (GRUB_DEFAULT (cfg_kernel_version cfg))) else None]"
proof -
  obtain flags where fl: "grub_config_flags cfg = Inr flags"
    using parse_config_flags_total by (auto simp: grub_config_flags_def)
  show ?thesis
    apply (simp only: update_grub_file_def Let_def fl sum.case)
    apply (rule grub_tail)
    apply (simp add: map_of_dict_set map_of_if_dict_set split del: if_split)
    done
qed

theorem grub_default_pin_witness:
  "map (\<lambda>c. map_of c ''grub_default'')
     (rendered_contexts (trace (snd (update_grub_file exact_lib host_example config_example
        world_empty)))) =
   [Some (CStr ''Advanced options for Ubuntu>Ubuntu, with Linux 5.15.0-99-generic'')]
 \<and> map (\<lambda>c. map_of c ''grub_default'')
     (rendered_contexts (trace (snd (update_grub_file exact_lib
        (host_example\<lparr>uname_release := ''5.15.0-99-generic''\<rparr>) config_example
        world_empty)))) =
   [None]"
  using grub_default_pin [of exact_lib host_example config_example world_empty]
    grub_default_pin [of exact_lib "host_example\<lparr>uname_release := ''5.15.0-99-generic''\<rparr>"
      config_example world_empty]
  by (simp add: config_example_simps host_example_simps running_kernel_def world_empty_def
      GRUB_DEFAULT_def)

text \<open>
  C6: \<open>install_configured_kernel\<close> installs nothing and records nothing when no kernel
  version is configured or the configured version is the release of the running kernel
  (only log lines are written); otherwise, when \<open>apt_update\<close> and \<open>apt_install\<close> do not
  raise, it installs exactly \<open>linux-image-<version>\<close> and
  \<open>linux-modules-extra-<version>\<close> and then records the resource \<open>kernel\<close>.
\<close>

theorem install_configured_kernel_effects:
  "(cfg_kernel_version cfg = [] \<longrightarrow>
      install_configured_kernel L h cfg s =
        (Inr (), s\<lparr>trace := trace s @
                    [Log ''kernel running already to the reuired version'' [] DEBUG]\<rparr>))
 \<and> (cfg_kernel_version cfg \<noteq> [] \<and> cfg_kernel_version cfg = running_kernel h \<longrightarrow>
      install_configured_kernel L h cfg s =
        (Inr (), s\<lparr>trace := trace s @
                    [Log ''Already running kernel: {}'' [AStr (cfg_kernel_version cfg)] DEBUG,
                     Log ''kernel running already to the reuired version'' [] DEBUG]\<rparr>))
 \<and> (cfg_kernel_version cfg \<noteq> [] \<and> cfg_kernel_version cfg \<noteq> running_kernel h
      \<and> \<not> fails h AptUpdate
      \<and> \<not> fails h (AptInstall [''linux-image-'' @ cfg_kernel_version cfg,
                                 ''linux-modules-extra-'' @ cfg_kernel_version cfg]) \<longrightarrow>
      install_configured_kernel L h cfg s =
        (Inr (), s\<lparr>db := set_resource L h KERNEL (db s),
                    trace := trace s @
                      [AptUpdate,
                       AptInstall [''linux-image-'' @ cfg_kernel_version cfg,
                                   ''linux-modules-extra-'' @ cfg_kernel_version cfg],
                       Log ''installing: {}''
                         [AList [''linux-image-'' @ cfg_kernel_version cfg,
                                 ''linux-modules-extra-'' @ cfg_kernel_version cfg]] None]\<rparr>))"
  by (simp add: install_configured_kernel_def proc_defs Let_def)

theorem install_configured_kernel_effects_witness:
  "install_configured_kernel exact_lib host_example (config_example\<lparr>cfg_kernel_version := ''''\<rparr>)
     world_empty =
     (Inr (), world_empty\<lparr>trace :=
        [Log ''kernel running already to the reuired version'' [] DEBUG]\<rparr>)
 \<and> install_configured_kernel exact_lib (host_example\<lparr>uname_release := ''5.15.0-99-generic''\<rparr>)
     config_example world_empty =
     (Inr (), world_empty\<lparr>trace :=
        [Log ''Already running kernel: {}'' [AStr ''5.15.0-99-generic''] DEBUG,
         Log ''kernel running already to the reuired version'' [] DEBUG]\<rparr>)
 \<and> install_configured_kernel exact_lib host_example config_example world_empty =
     (Inr (), world_empty\<lparr>db := set_resource exact_lib host_example KERNEL kv_empty,
        trace :=
          [AptUpdate,
           AptInstall [''linux-image-5.15.0-99-generic'',
                       ''linux-modules-extra-5.15.0-99-generic''],
           Log ''installing: {}''
             [AList [''linux-image-5.15.0-99-generic'',
                     ''linux-modules-extra-5.15.0-99-generic'']] None]\<rparr>)"
  using install_configured_kernel_effects
      [of "config_example\<lparr>cfg_kernel_version := ''''\<rparr>" exact_lib host_example world_empty]
    install_configured_kernel_effects
      [of config_example exact_lib "host_example\<lparr>uname_release := ''5.15.0-99-generic''\<rparr>"
          world_empty]
    install_configured_kernel_effects
      [of config_example exact_lib host_example world_empty]
  by (simp add: config_example_simps host_example_simps running_kernel_def world_empty_def)

text \<open>
  C7: when the governor is none of \<open>""\<close>, \<open>"powersave"\<close> and \<open>"performance"\<close>,
  \<open>update_cpufreq\<close> returns with the world as it was: nothing is rendered, recorded,
  toggled, restarted or logged.
\<close>

theorem update_cpufreq_invalid_governor:
  "cfg_governor cfg \<notin> {'''', ''powersave'', ''performance''} \<Longrightarrow>
     update_cpufreq L h cfg s = (Inr (), s)"
  by (simp add: update_cpufreq_def return_proc_def)

theorem update_cpufreq_invalid_governor_witness:
  "''eco'' \<notin> {'''', ''powersave'', ''performance''}
 \<and> update_cpufreq exact_lib host_example (config_example\<lparr>cfg_governor := ''eco''\<rparr>)
      world_empty = (Inr (), world_empty)"
  using update_cpufreq_invalid_governor
    [of "config_example\<lparr>cfg_governor := ''eco''\<rparr>" exact_lib host_example world_empty]
  by simp

text \<open>
  C8, as the code has it: when the grub override file exists and neither \<open>os.remove\<close>
  nor \<open>update-grub\<close> raises, \<open>remove_grub_configuration\<close> deletes the file, runs
  \<open>update-grub\<close> if the option \<open>update-grub\<close> is set and the host is no container, and
  then records the override file as changed in the tracker; when the file does not
  exist, the call changes nothing.
\<close>

theorem remove_grub_configuration_records:
  "(GRUB_CONF \<notin> files s \<longrightarrow> remove_grub_configuration L h cfg s = (Inr (), s))
 \<and> (GRUB_CONF \<in> files s \<and> \<not> fails h (Remove GRUB_CONF)
      \<and> \<not> fails h (CheckCall [''/usr/sbin/update-grub'']) \<longrightarrow>
      remove_grub_configuration L h cfg s =
        (Inr (), s\<lparr>db := set_resource L h GRUB_CONF (db s),
                    files := files s - {GRUB_CONF},
                    trace := trace s @
                      [Remove GRUB_CONF,
                       Log ''deleted grub configuration at '' [AStr GRUB_CONF] DEBUG] @
                      (if cfg_update_grub cfg \<and> \<not> is_container h
                       then [CheckCall [''/usr/sbin/update-grub''],
                             Log ''Running update-grub to apply grub conf updates'' [] DEBUG]
                       else [])\<rparr>))"
  by (simp add: remove_grub_configuration_def proc_defs Let_def)

theorem remove_grub_configuration_records_witness:
  "remove_grub_configuration exact_lib host_example config_example world_empty =
     (Inr (), world_empty)
 \<and> remove_grub_configuration exact_lib host_example config_example world_with_grub =
     (Inr (), \<lparr>db = set_resource exact_lib host_example GRUB_CONF kv_empty,
               files = {},
               trace = [Remove GRUB_CONF,
                        Log ''deleted grub configuration at '' [AStr GRUB_CONF] DEBUG,
                        CheckCall [''/usr/sbin/update-grub''],
                        Log ''Running update-grub to apply grub conf updates'' [] DEBUG]\<rparr>)"
  using remove_grub_configuration_records
      [of world_empty exact_lib host_example config_example]
    remove_grub_configuration_records
      [of world_with_grub exact_lib host_example config_example]
  by (simp add: config_example_simps host_example_simps world_empty_def world_with_grub_def)

text \<open>
  C8 as stated fails: removing an existing override file leaves a tracker record for
  it, where there was none.
\<close>

theorem remove_grub_configuration_counterexample:
  "GRUB_CONF \<in> files world_with_grub
 \<and> db world_with_grub (key_for GRUB_CONF) = None
 \<and> db (snd (remove_grub_configuration exact_lib host_example config_example world_with_grub))
      (key_for GRUB_CONF) = Some 1793800000000000"
  by (simp add: remove_grub_configuration_def proc_defs Let_def world_with_grub_def
      host_example_simps config_example_simps set_resource_def exact_lib_def kv_empty_def)

text \<open>
  C9: on xenial and outside a container, when the render does not raise,
  \<open>update_cpufreq\<close> with a valid governor calls \<open>update-rc.d -f ondemand remove\<close> if the
  governor is not empty, whichever of the two it is, and
  \<open>update-rc.d -f ondemand defaults\<close> if the governor is empty; it makes no other
  \<open>update-rc.d\<close> call.
\<close>

theorem update_cpufreq_ondemand_toggle:
  assumes "distrib_codename h = ''xenial''" and "\<not> is_container h"
    and "cfg_governor cfg \<in> {'''', ''powersave'', ''performance''}"
    and "\<not> fails h (Render CPUFREQUTILS_TMPL CPUFREQUTILS
                      [(''governor'', CStr (cfg_governor cfg))])"
  shows "trace (snd (update_cpufreq L h cfg s)) =
           trace s @
             [Render CPUFREQUTILS_TMPL CPUFREQUTILS [(''governor'', CStr (cfg_governor cfg))],
              Log (''disabling the ondemand initscript for lp#1822774'' @
                   '' and lp#740127 if a governor is specified'') [] DEBUG,
              CheckCall (ondemand_command
                (if cfg_governor cfg \<noteq> [] then ''remove'' else ''defaults''))] @
             (if fails h (CheckCall (ondemand_command
                    (if cfg_governor cfg \<noteq> [] then ''remove'' else ''defaults'')))
              then [] else [ServiceRestart ''cpufrequtils''])"
  using assms by (auto simp: update_cpufreq_def proc_defs Let_def)

theorem update_cpufreq_ondemand_toggle_witness:
  "trace (snd (update_cpufreq exact_lib host_example config_example world_empty)) =
     [Render CPUFREQUTILS_TMPL CPUFREQUTILS [(''governor'', CStr ''performance'')],
      Log (''disabling the ondemand initscript for lp#1822774'' @
           '' and lp#740127 if a governor is specified'') [] DEBUG,
      CheckCall (ondemand_command ''remove''),
      ServiceRestart ''cpufrequtils'']
 \<and> trace (snd (update_cpufreq exact_lib host_example (config_example\<lparr>cfg_governor := ''''\<rparr>)
      world_empty)) =
     [Render CPUFREQUTILS_TMPL CPUFREQUTILS [(''governor'', CStr '''')],
      Log (''disabling the ondemand initscript for lp#1822774'' @
           '' and lp#740127 if a governor is specified'') [] DEBUG,
      CheckCall (ondemand_command ''defaults''),
      ServiceRestart ''cpufrequtils'']"
  using update_cpufreq_ondemand_toggle
      [of host_example config_example exact_lib world_empty]
    update_cpufreq_ondemand_toggle
      [of host_example "config_example\<lparr>cfg_governor := ''''\<rparr>" exact_lib world_empty]
  by (simp add: config_example_simps host_example_simps world_empty_def)

end
